theory Spec2Isabelle
  imports Main
begin

section \<open>The greeter module \<^verbatim>\<open>hello.py\<close>\<close>

subsection \<open>Standard output and the effect of a statement\<close>

text \<open>
  The only resource the module touches is the process's standard output. It is modelled as
  the text written so far. A Python string is a sequence of characters and so is a HOL
  \<^typ>\<open>string\<close>; nothing below looks inside a character, so the encoding plays no role.
\<close>

type_synonym stdout = string

text \<open>
  A raised exception is a value: the class name of the exception. The module has no
  \<^verbatim>\<open>raise\<close> statement and calls nothing that raises on a \<^verbatim>\<open>str\<close>, so no
  operation below produces one; the result type keeps the branch so that "returns without
  raising" is a statement about the result.
\<close>

datatype py_error = PyError string

text \<open>
  A computation runs on the standard output written so far and yields an exception or a
  value, with the standard output afterwards.
\<close>

type_synonym 'a io = "stdout \<Rightarrow> (py_error + 'a) \<times> stdout"

definition return_io :: "'a \<Rightarrow> 'a io" where
  "return_io v out = (Inr v, out)"

definition bind_io :: "'a io \<Rightarrow> ('a \<Rightarrow> 'b io) \<Rightarrow> 'b io" where
  "bind_io m f out =
     (case m out of
        (Inl e, out') \<Rightarrow> (Inl e, out')
      | (Inr v, out') \<Rightarrow> f v out')"

text \<open>The line terminator that \<^verbatim>\<open>print\<close> appends (its default \<^verbatim>\<open>end\<close>).\<close>

definition line_terminator :: string where
  "line_terminator = ''\<newline>''"

text \<open>
  \<^verbatim>\<open>print(s)\<close> with one string argument: the text, then the line terminator, appended to
  standard output; the value of the call is \<^verbatim>\<open>None\<close>.
\<close>

definition print :: "string \<Rightarrow> unit io" where
  "print s out = (Inr (), out @ s @ line_terminator)"

subsection \<open>Formatted string literals\<close>

text \<open>
  An f-string is a sequence of parts: literal text, and replacement fields holding the value
  of an expression. The only replacement field of the module holds a \<^verbatim>\<open>str\<close>, has
  no conversion and no format specification.
\<close>

datatype fpart = Constant string | FormattedValue string

text \<open>Formatting a \<^verbatim>\<open>str\<close> with the empty format specification yields the string.\<close>

definition format_value :: "string \<Rightarrow> string" where
  "format_value v = v"

fun joined_str :: "fpart list \<Rightarrow> string" where
  "joined_str [] = []"
| "joined_str (Constant c # ps) = c @ joined_str ps"
| "joined_str (FormattedValue v # ps) = format_value v @ joined_str ps"

subsection \<open>The two operations and the entry point\<close>

text \<open>
  \<^verbatim>\<open>def hello(): print("Hello, World!")\<close>. The body ends without a
  \<^verbatim>\<open>return\<close>, so the call yields \<^verbatim>\<open>None\<close>, here the unit value.
\<close>

definition hello :: "unit io" where
  "hello = bind_io (print ''Hello, World!'') (\<lambda>_. return_io ())"

text \<open>\<^verbatim>\<open>def hello_name(name: str) -> str: return f"Hello, {name}!"\<close>\<close>

definition hello_name :: "string \<Rightarrow> string io" where
  "hello_name name =
     return_io (joined_str [Constant ''Hello, '', FormattedValue name, Constant ''!''])"

text \<open>
  The block guarded by \<^verbatim>\<open>if __name__ == "__main__":\<close>, and the module body around it:
  the two \<^verbatim>\<open>def\<close> statements write nothing, and the block runs only when the module's
  name is \<^verbatim>\<open>__main__\<close>, which is the case when the file is run directly.
\<close>

definition main_block :: "unit io" where
  "main_block =
     bind_io hello (\<lambda>_.
     bind_io (hello_name ''Developer'') (\<lambda>greeting.
     print greeting))"

definition run_module :: "string \<Rightarrow> unit io" where
  "run_module module_name =
     (if module_name = ''__main__'' then main_block else return_io ())"

subsection \<open>Sequences of calls\<close>

text \<open>
  A client of the module calls the two operations in some order. A call is one of the two
  operations with its argument; its value is \<^verbatim>\<open>None\<close> or a string. A sequence of
  calls runs from left to right on the same standard output and collects the values.
\<close>

datatype call = Hello | HelloName string

datatype pyval = NoneVal | StrVal string

fun exec_call :: "call \<Rightarrow> pyval io" where
  "exec_call Hello = bind_io hello (\<lambda>_. return_io NoneVal)"
| "exec_call (HelloName name) = bind_io (hello_name name) (\<lambda>s. return_io (StrVal s))"

fun run_calls :: "call list \<Rightarrow> (pyval list) io" where
  "run_calls [] = return_io []"
| "run_calls (c # cs) =
     bind_io (exec_call c) (\<lambda>v.
     bind_io (run_calls cs) (\<lambda>vs.
     return_io (v # vs)))"

section \<open>Properties\<close>

lemma bind_io_return [simp]: "bind_io (return_io v) f out = f v out"
  by (simp add: bind_io_def return_io_def)

lemma bind_io_print [simp]: "bind_io (print s) f out = f () (out @ s @ line_terminator)"
  by (simp add: bind_io_def print_def)

lemma joined_str_greeting:
  "joined_str [Constant ''Hello, '', FormattedValue name, Constant ''!''] = ''Hello, '' @ name @ ''!''"
  by (simp add: format_value_def)

lemma hello_run: "hello out = (Inr (), out @ ''Hello, World!'' @ line_terminator)"
  by (simp add: hello_def return_io_def)

lemma hello_name_run: "hello_name name out = (Inr (''Hello, '' @ name @ ''!''), out)"
  unfolding hello_name_def joined_str_greeting by (simp add: return_io_def)

text \<open>
  C1: for every input string \<open>s\<close>, on any standard output, \<open>hello_name s\<close> returns
  exactly \<open>"Hello, "\<close> followed by \<open>s\<close> followed by \<open>"!"\<close>: the input appears
  unchanged between the two literals.
\<close>

theorem hello_name_concatenation:
  "fst (hello_name s out) = Inr (''Hello, '' @ s @ ''!'')"
  by (simp add: hello_name_run)

text \<open>
  C2: run directly (module name \<open>__main__\<close>), the module performs \<open>hello\<close>, then
  \<open>hello_name "Developer"\<close>, then a \<open>print\<close> of its result, in this order. What it
  adds to standard output is the line \<open>Hello, World!\<close> and then the line
  \<open>Hello, Developer!\<close>, each followed by the line terminator; on an empty console the
  transcript is exactly these two lines.
\<close>

theorem run_module_main_transcript:
  "run_module ''__main__'' =
     bind_io hello (\<lambda>_. bind_io (hello_name ''Developer'') (\<lambda>greeting. print greeting))
   \<and> run_module ''__main__'' out =
     (Inr (), out @ ''Hello, World!'' @ line_terminator
                  @ ''Hello, Developer!'' @ line_terminator)
   \<and> snd (run_module ''__main__'' []) =
     ''Hello, World!\<newline>Hello, Developer!\<newline>''"
proof -
  have order: "run_module ''__main__'' =
      bind_io hello (\<lambda>_. bind_io (hello_name ''Developer'') (\<lambda>greeting. print greeting))"
    by (simp add: run_module_def main_block_def)
  have run: "run_module ''__main__'' out' =
      (Inr (), out' @ ''Hello, World!'' @ line_terminator
                    @ ''Hello, Developer!'' @ line_terminator)" for out'
    unfolding order by (simp add: bind_io_def hello_run hello_name_run print_def)
  have console: "snd (run_module ''__main__'' []) =
      ''Hello, World!\<newline>Hello, Developer!\<newline>''"
    unfolding run by (simp add: line_terminator_def)
  from order run console show ?thesis by blast
qed

text \<open>
  C3: \<open>hello\<close> has no parameter. On any standard output it appends the text
  \<open>Hello, World!\<close> and the line terminator, returns \<open>None\<close> without raising, and
  what it has written holds exactly one line terminator: it is one line.
\<close>

theorem hello_writes_one_line:
  "hello out = (Inr (), out @ ''Hello, World!'' @ line_terminator)
   \<and> drop (length out) (snd (hello out)) = ''Hello, World!\<newline>''
   \<and> count_list (drop (length out) (snd (hello out))) (CHR ''\<newline>'') = 1"
  by (simp add: hello_run line_terminator_def)

text \<open>
  C4: \<open>hello_name\<close> is pure. A call leaves standard output as it found it, and the value
  it returns for an input is the same whatever standard output it is called on: two calls
  with the same input return the same result.
\<close>

theorem hello_name_pure:
  "snd (hello_name s out) = out
   \<and> fst (hello_name s out) = fst (hello_name s out')"
  by (simp add: hello_name_run)

text \<open>
  C5: \<open>hello_name\<close> cannot fail: for every string and every standard output the call
  returns a value and raises no exception.
\<close>

theorem hello_name_returns:
  "\<exists>v. hello_name s out = (Inr v, out)"
  by (simp add: hello_name_run)

text \<open>C6: the empty string is accepted, and \<open>hello_name ""\<close> returns \<open>"Hello, !"\<close>.\<close>

theorem hello_name_empty:
  "fst (hello_name '''' out) = Inr ''Hello, !''"
  by (simp add: hello_name_run)

text \<open>
  C7: special characters pass through unmodified. For every name \<open>s\<close>, whatever
  characters it holds, the result is \<open>"Hello, "\<close>, then \<open>s\<close> itself, then
  \<open>"!"\<close>: no character of the name is dropped, replaced or escaped. In particular any
  character \<open>c\<close> (a quote, a hyphen, a blank) at any place in the name, after any
  \<open>pre\<close> and before any \<open>post\<close>, stands at the same place in the greeting, and the
  result has the length of the name plus the eight characters of the two literals. The
  test's input is one case: \<open>hello_name "Bob-O'Connor"\<close> returns
  \<open>"Hello, Bob-O'Connor!"\<close>.
\<close>

theorem hello_name_special_characters:
  "fst (hello_name s out) = Inr (''Hello, '' @ s @ ''!'')
   \<and> fst (hello_name (pre @ c # post) out) = Inr (''Hello, '' @ pre @ c # post @ ''!'')
   \<and> (\<exists>g. fst (hello_name s out) = Inr g
          \<and> length g = length s + 8 \<and> take (length s) (drop 7 g) = s)
   \<and> fst (hello_name ''Bob-O'Connor'' out) = Inr ''Hello, Bob-O'Connor!''
   \<and> fst (hello_name ''a\"b c'' out) = Inr ''Hello, a\"b c!''"
proof -
  have every: "fst (hello_name n out) = Inr (''Hello, '' @ n @ ''!'')" for n
    by (simp add: hello_name_run)
  have placed: "fst (hello_name (pre @ c # post) out) =
      Inr (''Hello, '' @ pre @ c # post @ ''!'')"
    unfolding every by simp
  have kept: "\<exists>g. fst (hello_name s out) = Inr g
      \<and> length g = length s + 8 \<and> take (length s) (drop 7 g) = s"
    unfolding every by simp
  have quote_hyphen: "fst (hello_name ''Bob-O'Connor'' out) = Inr ''Hello, Bob-O'Connor!''"
    unfolding every by simp
  have double_quote_blank: "fst (hello_name ''a\"b c'' out) = Inr ''Hello, a\"b c!''"
    unfolding every by simp
  from every [of s] placed kept quote_hyphen double_quote_blank show ?thesis by blast
qed

text \<open>
  C8: both operations are stateless. A finite sequence of calls, started on any standard
  output, raises nothing; every \<open>hello_name\<close> call in it returns the greeting for its
  argument, every \<open>hello\<close> call returns \<open>None\<close>; standard output grows by one line
  \<open>Hello, World!\<close> for each \<open>hello\<close> call and by nothing for a \<open>hello_name\<close> call,
  whatever calls came before. These values and outputs are those of the call made alone on
  an empty standard output.
\<close>

theorem calls_are_stateless:
  "run_calls cs out =
     (Inr (map (\<lambda>c. case c of Hello \<Rightarrow> NoneVal
                               | HelloName n \<Rightarrow> StrVal (''Hello, '' @ n @ ''!'')) cs),
      out @ concat (map (\<lambda>c. case c of Hello \<Rightarrow> ''Hello, World!'' @ line_terminator
                                      | HelloName n \<Rightarrow> []) cs))
   \<and> exec_call (HelloName n) [] = (Inr (StrVal (''Hello, '' @ n @ ''!'')), [])
   \<and> exec_call Hello [] = (Inr NoneVal, ''Hello, World!'' @ line_terminator)"
proof -
  define result where
    "result = (\<lambda>c. case c of Hello \<Rightarrow> NoneVal
                        | HelloName n \<Rightarrow> StrVal (''Hello, '' @ n @ ''!''))"
  define written where
    "written = (\<lambda>c. case c of Hello \<Rightarrow> ''Hello, World!'' @ line_terminator
                        | HelloName n \<Rightarrow> [])"
  have one: "exec_call c out' = (Inr (result c), out' @ written c)" for c out'
    by (cases c)
       (simp_all add: result_def written_def bind_io_def hello_run hello_name_run return_io_def)
  have many: "run_calls cs out' = (Inr (map result cs), out' @ concat (map written cs))" for out'
  proof (induction cs arbitrary: out')
    case Nil
    show ?case by (simp add: return_io_def)
  next
    case (Cons c cs)
    show ?case by (simp add: bind_io_def one Cons.IH return_io_def)
  qed
  have alone_name: "exec_call (HelloName n) [] = (Inr (StrVal (''Hello, '' @ n @ ''!'')), [])"
    unfolding one by (simp add: result_def written_def)
  have alone_hello: "exec_call Hello [] = (Inr NoneVal, ''Hello, World!'' @ line_terminator)"
    unfolding one by (simp add: result_def written_def)
  from many [of out, unfolded result_def written_def] alone_name alone_hello
  show ?thesis by blast
qed

text \<open>
  C9: the greeting can be read back. \<open>hello_name s\<close> returns a string whose first seven
  characters are \<open>"Hello, "\<close> and whose last character is \<open>"!"\<close>; dropping these
  seven characters and the last one gives \<open>s\<close> again. Hence distinct names give distinct
  greetings, on whatever standard output the two calls are made.
\<close>

theorem hello_name_round_trip:
  "(\<exists>g. fst (hello_name s out) = Inr g
        \<and> take 7 g = ''Hello, '' \<and> last g = CHR ''!''
        \<and> butlast (drop 7 g) = s)
   \<and> (s \<noteq> t \<longrightarrow> fst (hello_name s out) \<noteq> fst (hello_name t out'))"
  by (simp add: hello_name_run)

theorem hello_name_round_trip_witness:
  "''Alice'' \<noteq> ''Bob''
   \<and> butlast (drop 7 ''Hello, Alice!'') = ''Alice''
   \<and> fst (hello_name ''Alice'' []) = Inr ''Hello, Alice!''
   \<and> fst (hello_name ''Alice'' []) \<noteq> fst (hello_name ''Bob'' ''Hello, World!'')"
proof -
  have distinct_names: "''Alice'' \<noteq> ''Bob''" by simp
  from hello_name_round_trip [of "''Alice''" "[]" "''Bob''" "''Hello, World!''"]
  obtain g where g: "fst (hello_name ''Alice'' []) = Inr g" "butlast (drop 7 g) = ''Alice''"
    and differ: "fst (hello_name ''Alice'' []) \<noteq> fst (hello_name ''Bob'' ''Hello, World!'')"
    using distinct_names by blast
  have value_g: "fst (hello_name ''Alice'' []) = Inr ''Hello, Alice!''"
    by (simp add: hello_name_def return_io_def format_value_def)
  have "butlast (drop 7 ''Hello, Alice!'') = ''Alice''"
    using g value_g by simp
  with distinct_names value_g differ show ?thesis by blast
qed

text \<open>
  C10: importing the module writes nothing. When the module runs under any name other than
  \<open>__main__\<close> (under \<open>import hello\<close> the name is \<open>hello\<close>), the guarded block is
  skipped: the run raises nothing and leaves standard output as it was. Standard output is
  the only state of the model, so this is the whole effect of the import.
\<close>

theorem import_writes_nothing:
  assumes "module_name \<noteq> ''__main__''"
  shows "run_module module_name out = (Inr (), out)"
  using assms by (simp add: run_module_def return_io_def)

theorem import_writes_nothing_witness:
  "''hello'' \<noteq> ''__main__''
   \<and> run_module ''hello'' ''earlier output'' = (Inr (), ''earlier output'')"
proof -
  have imported: "''hello'' \<noteq> ''__main__''" by simp
  from imported import_writes_nothing [OF imported, of "''earlier output''"]
  show ?thesis by blast
qed

end
